theory Spec2Isabelle
  imports Complex_Main
begin

section \<open>Data model of arc\_welder.cpp\<close>

text \<open>
  The controller of \<^verbatim>\<open>src/ArcWelder/arc_welder.cpp\<close> is embedded as state-passing
  functions on a record of the members of class \<^verbatim>\<open>arc_welder\<close>.  C++ \<^verbatim>\<open>double\<close> values are
  carried as \<open>real\<close>: the controller only copies and compares them, and no theorem below
  depends on the value of a floating-point operation.  C++ \<^verbatim>\<open>int\<close> and \<^verbatim>\<open>long\<close> counters are
  \<open>int\<close>.  Calls to the logger are left out; they do not touch the members modelled here.
\<close>

text \<open>View of \<^verbatim>\<open>parsed_command_parameter\<close>: the members process\_gcode reads, and the value.\<close>

record parsed_command_parameter =
  param_name :: string
  double_value :: real
  double_precision :: nat

text \<open>View of \<^verbatim>\<open>parsed_command\<close>; \<open>cmd_is_empty\<close> is the member \<^verbatim>\<open>is_empty\<close>.\<close>

record parsed_command =
  command :: string
  gcode :: string
  comment :: string
  cmd_is_empty :: bool
  is_known_command :: bool
  parameters :: "parsed_command_parameter list"

text \<open>View of \<^verbatim>\<open>extruder\<close>; \<open>offset_e\<close> is the value of \<^verbatim>\<open>get_offset_e()\<close>.\<close>

record extruder =
  is_extruding :: bool
  is_retracting :: bool
  e_relative :: real
  offset_e :: real

text \<open>
  View of \<^verbatim>\<open>position\<close>, a snapshot of the position tracker: the members process\_gcode reads
  (\<open>pos_x\<close> is the member \<^verbatim>\<open>x\<close>, \<open>pos_f\<close> the member \<^verbatim>\<open>f\<close>), the values of the getters
  \<^verbatim>\<open>get_gcode_x()\<close>, \<^verbatim>\<open>get_gcode_y()\<close>, \<^verbatim>\<open>get_gcode_z()\<close> and \<^verbatim>\<open>get_current_extruder()\<close>, and the
  command the snapshot was made for.
\<close>

record position =
  pos_x :: real
  pos_y :: real
  pos_z :: real
  pos_f :: real
  x_offset :: real
  y_offset :: real
  z_offset :: real
  x_firmware_offset :: real
  y_firmware_offset :: real
  z_firmware_offset :: real
  is_relative :: bool
  is_extruder_relative :: bool
  feature_type_tag :: int
  has_xy_position_changed :: bool
  gcode_x :: real
  gcode_y :: real
  gcode_z :: real
  current_extruder :: extruder
  pos_command :: parsed_command

text \<open>\<^verbatim>\<open>printer_point(x, y, z, e_relative, distance)\<close>\<close>

record printer_point =
  pt_x :: real
  pt_y :: real
  pt_z :: real
  pt_e_relative :: real
  pt_distance :: real

text \<open>
  Modelled from the spec: \<^verbatim>\<open>unwritten_command.h\<close> is not among the sources.  The spec's
  UnwrittenCommand is \<open>{serialized_text; comment; extrusion_length}\<close>; arc\_welder.cpp reads
  the members \<^verbatim>\<open>comment\<close> and \<^verbatim>\<open>extrusion_length\<close> and calls \<^verbatim>\<open>to_string()\<close>.
\<close>

record unwritten_command =
  serialized_text :: string
  uw_comment :: string
  extrusion_length :: real

text \<open>\<^verbatim>\<open>arc_welder_progress\<close>, fields prefixed \<open>pg_\<close>.\<close>

record arc_welder_progress =
  pg_gcodes_processed :: int
  pg_lines_processed :: int
  pg_points_compressed :: int
  pg_arcs_created :: int
  pg_source_file_position :: int
  pg_target_file_size :: int
  pg_source_file_size :: int
  pg_percent_complete :: real
  pg_seconds_elapsed :: real
  pg_seconds_remaining :: real
  pg_compression_ratio :: real
  pg_compression_percent :: real
  pg_num_firmware_compensations :: int
  pg_segment_statistics :: "(real \<times> bool) list"

text \<open>\<^verbatim>\<open>arc_welder_results\<close>\<close>

record arc_welder_results =
  success :: bool
  cancelled :: bool
  message :: string
  progress :: arc_welder_progress

text \<open>
  The failures of the container \<^verbatim>\<open>array_list\<close> (not among the sources) that the controller
  can run into: removing from an empty list, and reading before index 0.
\<close>

datatype error = Pop_from_empty_list | Index_out_of_range

section \<open>External collaborators\<close>

text \<open>
  The position tracker (\<^verbatim>\<open>gcode_position\<close>), the arc-fit engine (\<^verbatim>\<open>segmented_arc\<close>), the
  parser and \<^verbatim>\<open>utilities\<close> are not part of arc\_welder.cpp.  They are parameters: \<open>'trk\<close> is
  the state of the tracker, \<open>'arc\<close> the state of the engine, and every theorem holds for
  all of them.  \<open>new_progress\<close>, \<open>new_results\<close> and \<open>new_parsed_command\<close> are the
  default-constructed values of the three structs, \<open>new_unwritten_command\<close> is the
  constructor \<^verbatim>\<open>unwritten_command(position*, double)\<close>, \<open>to_string\<close> its method, and
  \<open>arcwelder_comment\<close> is the header text that add\_arcwelder\_comment\_to\_target formats out
  of the configuration.
\<close>

record ('trk, 'arc) collaborators =
  position_update :: "'trk \<Rightarrow> parsed_command \<Rightarrow> int \<Rightarrow> int \<Rightarrow> int \<Rightarrow> 'trk"
  get_current_position :: "'trk \<Rightarrow> position"
  get_previous_position :: "'trk \<Rightarrow> position"
  undo_update :: "'trk \<Rightarrow> 'trk"
  try_add_point :: "'arc \<Rightarrow> printer_point \<Rightarrow> bool \<times> 'arc"
  get_num_segments :: "'arc \<Rightarrow> int"
  get_min_segments :: "'arc \<Rightarrow> int"
  is_shape :: "'arc \<Rightarrow> bool"
  clear :: "'arc \<Rightarrow> 'arc"
  update_xyz_precision :: "'arc \<Rightarrow> nat \<Rightarrow> 'arc"
  update_e_precision :: "'arc \<Rightarrow> nat \<Rightarrow> 'arc"
  get_shape_gcode_relative :: "'arc \<Rightarrow> real \<Rightarrow> string"
  get_shape_gcode_absolute :: "'arc \<Rightarrow> real \<Rightarrow> real \<Rightarrow> string"
  get_shape_length :: "'arc \<Rightarrow> real"
  get_num_firmware_compensations :: "'arc \<Rightarrow> int"
  is_equal :: "real \<Rightarrow> real \<Rightarrow> bool"
  get_cartesian_distance_xy :: "real \<Rightarrow> real \<Rightarrow> real \<Rightarrow> real \<Rightarrow> real"
  get_cartesian_distance_xyz :: "real \<Rightarrow> real \<Rightarrow> real \<Rightarrow> real \<Rightarrow> real \<Rightarrow> real \<Rightarrow> real"
  try_parse_gcode :: "string \<Rightarrow> parsed_command"
  new_parsed_command :: parsed_command
  new_unwritten_command :: "position \<Rightarrow> real \<Rightarrow> unwritten_command"
  to_string :: "unwritten_command \<Rightarrow> string"
  new_progress :: arc_welder_progress
  new_results :: arc_welder_results
  arcwelder_comment :: string

text \<open>
  What one run of process() meets outside the object: the source file (its lines, or
  \<open>None\<close> when it cannot be opened), whether the target file can be opened, the size
  get\_file\_size reports, the answer of \<^verbatim>\<open>tellg()\<close> after a number of lines, the clock (the
  value of the k-th call of \<^verbatim>\<open>clock()\<close>), and the progress callback (\<open>None\<close> for a NULL
  pointer; its answer may depend on how often it has been called before).
\<close>

record world =
  source_file :: "string list option"
  target_file_opens :: bool
  source_file_size :: int
  tellg_after :: "nat \<Rightarrow> int"
  clock_at :: "nat \<Rightarrow> real"
  clocks_per_sec :: real
  progress_callback :: "(nat \<Rightarrow> arc_welder_progress \<Rightarrow> bool) option"

section \<open>The members of class arc\_welder\<close>

text \<open>
  \<open>output_file\<close> is the text written to the target so far.  \<open>emitted_arcs\<close> is a history
  variable: the segment count of every arc whose line write\_arc\_gcodes has written, in
  order; no function reads it.  \<open>clock_reads\<close> and \<open>callback_calls\<close> count the calls of
  \<^verbatim>\<open>clock()\<close> and of the callback, and are read only to take the next answer of the two.
\<close>

record ('trk, 'arc) arc_welder =
  source_position :: 'trk
  current_arc :: 'arc
  unwritten_commands :: "unwritten_command list"
  segment_statistics :: "(real \<times> bool) list"
  output_file :: string
  output_file_is_open :: bool
  allow_3d_arcs :: bool
  allow_dynamic_precision :: bool
  notification_period_seconds :: real
  lines_processed :: int
  gcodes_processed :: int
  file_size :: int
  last_gcode_line_written :: int
  points_compressed :: int
  arcs_created :: int
  waiting_for_arc :: bool
  previous_feedrate :: real
  previous_is_extruder_relative :: bool
  emitted_arcs :: "int list"
  clock_reads :: nat
  callback_calls :: nat

definition newline :: string where
  "newline = [CHR 0x0A]"

section \<open>Writing to the target\<close>

text \<open>write\_gcode\_to\_file, lines 740-744\<close>

definition write_gcode_to_file :: "('trk, 'arc) arc_welder \<Rightarrow> string \<Rightarrow> ('trk, 'arc) arc_welder" where
  "write_gcode_to_file s g = s\<lparr>output_file := output_file s @ g @ newline\<rparr>"

text \<open>
  write\_unwritten\_gcodes\_to\_file, lines 746-764: every command is taken from the front,
  its length recorded when positive, its text and a newline appended to the text written.
\<close>

fun lines_to_write :: "('trk, 'arc) collaborators \<Rightarrow> unwritten_command list \<Rightarrow> string" where
  "lines_to_write col [] = []"
| "lines_to_write col (p # ps) = to_string col p @ newline @ lines_to_write col ps"

fun written_lengths :: "unwritten_command list \<Rightarrow> (real \<times> bool) list" where
  "written_lengths [] = []"
| "written_lengths (p # ps) =
     (if extrusion_length p > 0 then (extrusion_length p, False) # written_lengths ps
      else written_lengths ps)"

definition write_unwritten_gcodes_to_file ::
  "('trk, 'arc) collaborators \<Rightarrow> ('trk, 'arc) arc_welder \<Rightarrow> ('trk, 'arc) arc_welder" where
  "write_unwritten_gcodes_to_file col s =
     s\<lparr>segment_statistics := segment_statistics s @ written_lengths (unwritten_commands s),
       output_file := output_file s @ lines_to_write col (unwritten_commands s),
       unwritten_commands := []\<rparr>"

section \<open>Emitting an arc\<close>

text \<open>
  get\_comment\_for\_arc, lines 711-730.  The loop runs over the entries from
  \<open>count - (N - 1)\<close> to the end; an index below 0 is outside the list.
\<close>

fun comment_loop :: "unwritten_command list \<Rightarrow> string \<Rightarrow> string" where
  "comment_loop [] c = c"
| "comment_loop (u # us) c =
     comment_loop us
       (if uw_comment u \<noteq> c \<and> length (uw_comment u) > 0
        then (if length c > 0 then c @ '' - '' else c) @ uw_comment u
        else c)"

definition get_comment_for_arc ::
  "('trk, 'arc) collaborators \<Rightarrow> ('trk, 'arc) arc_welder \<Rightarrow> error + string" where
  "get_comment_for_arc col s =
     (let count = int (length (unwritten_commands s));
          comment_index = count - (get_num_segments col (current_arc s) - 1)
      in if comment_index < 0 then Inl Index_out_of_range
         else Inr (comment_loop (drop (nat comment_index) (unwritten_commands s)) []))"

text \<open>get\_arc\_gcode\_relative and get\_arc\_gcode\_absolute, lines 766-794\<close>

definition get_arc_gcode_relative ::
  "('trk, 'arc) collaborators \<Rightarrow> ('trk, 'arc) arc_welder \<Rightarrow> real \<Rightarrow> string \<Rightarrow> string" where
  "get_arc_gcode_relative col s f c =
     (let g = get_shape_gcode_relative col (current_arc s) f
      in if length c > 0 then g @ '';'' @ c else g)"

definition get_arc_gcode_absolute ::
  "('trk, 'arc) collaborators \<Rightarrow> ('trk, 'arc) arc_welder \<Rightarrow> real \<Rightarrow> real \<Rightarrow> string \<Rightarrow> string" where
  "get_arc_gcode_absolute col s e f c =
     (let g = get_shape_gcode_absolute col (current_arc s) e f
      in if length c > 0 then g @ '';'' @ c else g)"

text \<open>\<^verbatim>\<open>pop_back()\<close> and the loop of lines 663-666 that calls it.\<close>

definition pop_back :: "'a list \<Rightarrow> error + 'a list" where
  "pop_back xs = (if xs = [] then Inl Pop_from_empty_list else Inr (butlast xs))"

fun pop_back_loop :: "nat \<Rightarrow> 'a list \<Rightarrow> error + 'a list" where
  "pop_back_loop 0 xs = Inr xs"
| "pop_back_loop (Suc k) xs =
     (case pop_back xs of Inl e \<Rightarrow> Inl e | Inr ys \<Rightarrow> pop_back_loop k ys)"

text \<open>write\_arc\_gcodes, lines 656-709\<close>

definition write_arc_gcodes ::
  "('trk, 'arc) collaborators \<Rightarrow> ('trk, 'arc) arc_welder \<Rightarrow> bool \<Rightarrow> real
     \<Rightarrow> error + ('trk, 'arc) arc_welder" where
  "write_arc_gcodes col s is_extruder_rel current_feedrate =
     (case get_comment_for_arc col s of
        Inl e \<Rightarrow> Inl e
      | Inr c \<Rightarrow>
         (case pop_back_loop (nat (get_num_segments col (current_arc s) - 1)) (unwritten_commands s) of
            Inl e \<Rightarrow> Inl e
          | Inr remaining \<Rightarrow>
             (let s1 = s\<lparr>unwritten_commands := remaining,
                         source_position := undo_update col (source_position s)\<rparr>;
                  feedrate = (if previous_feedrate s1 > 0 \<and> previous_feedrate s1 = current_feedrate
                              then 0 else current_feedrate);
                  g = (if previous_is_extruder_relative s1
                       then get_arc_gcode_relative col s1 feedrate c
                       else get_arc_gcode_absolute col s1
                              (offset_e (current_extruder (get_current_position col (source_position s1))))
                              feedrate c);
                  s2 = write_unwritten_gcodes_to_file col s1;
                  s3 = s2\<lparr>segment_statistics :=
                            segment_statistics s2 @ [(get_shape_length col (current_arc s2), False)]\<rparr>;
                  s4 = (write_gcode_to_file s3 g)
                         \<lparr>emitted_arcs := emitted_arcs s3 @ [get_num_segments col (current_arc s3)]\<rparr>
              in Inr (s4\<lparr>waiting_for_arc := False, current_arc := clear col (current_arc s4)\<rparr>))))"

section \<open>process\_gcode\<close>

text \<open>
  Lines 398-415: the length of the move, and the update of the source statistics.  The
  length stays 0 unless the XY position changed and the extruder is extruding or
  retracting.
\<close>

definition get_movement_length_mm ::
  "('trk, 'arc) collaborators \<Rightarrow> ('trk, 'arc) arc_welder \<Rightarrow> position \<Rightarrow> position \<Rightarrow> real" where
  "get_movement_length_mm col s pre cur =
     (let has_e_changed = is_extruding (current_extruder cur) \<or> is_retracting (current_extruder cur)
      in if has_xy_position_changed cur \<and> has_e_changed
         then (if allow_3d_arcs s
               then get_cartesian_distance_xyz col (pos_x pre) (pos_y pre) (pos_z pre)
                      (pos_x cur) (pos_y cur) (pos_z cur)
               else get_cartesian_distance_xy col (pos_x pre) (pos_y pre) (pos_x cur) (pos_y cur))
         else 0)"

definition update_source_statistics ::
  "('trk, 'arc) arc_welder \<Rightarrow> real \<Rightarrow> bool \<Rightarrow> ('trk, 'arc) arc_welder" where
  "update_source_statistics s movement_length_mm is_reprocess =
     (if movement_length_mm > 0 \<and> \<not> is_reprocess
      then s\<lparr>segment_statistics := segment_statistics s @ [(movement_length_mm, True)]\<rparr>
      else s)"

text \<open>Lines 419-436: \<^verbatim>\<open>is_g1_g2\<close> and the loop over the parameters; \<^verbatim>\<open>name[0]\<close> selects.\<close>

definition is_g1_g2 :: "parsed_command \<Rightarrow> bool" where
  "is_g1_g2 cmd = (command cmd = ''G0'' \<or> command cmd = ''G1'')"

fun update_precision ::
  "('trk, 'arc) collaborators \<Rightarrow> 'arc \<Rightarrow> parsed_command_parameter list \<Rightarrow> 'arc" where
  "update_precision col a [] = a"
| "update_precision col a (p # ps) =
     update_precision col
       (case param_name p of
          [] \<Rightarrow> a
        | c # _ \<Rightarrow>
           (if c = CHR ''X'' \<or> c = CHR ''Y'' \<or> c = CHR ''Z''
            then update_xyz_precision col a (double_precision p)
            else if c = CHR ''E'' then update_e_precision col a (double_precision p)
            else a))
       ps"

definition update_dynamic_precision ::
  "('trk, 'arc) collaborators \<Rightarrow> ('trk, 'arc) arc_welder \<Rightarrow> parsed_command \<Rightarrow> ('trk, 'arc) arc_welder" where
  "update_dynamic_precision col s cmd =
     (if allow_dynamic_precision s \<and> is_g1_g2 cmd
      then s\<lparr>current_arc := update_precision col (current_arc s) (parameters cmd)\<rparr>
      else s)"

text \<open>Lines 438-462: the condition under which the command is offered to the arc.\<close>

definition arc_eligible ::
  "(real \<Rightarrow> real \<Rightarrow> bool) \<Rightarrow> bool \<Rightarrow> bool \<Rightarrow> bool \<Rightarrow> parsed_command \<Rightarrow> position \<Rightarrow> position \<Rightarrow> bool" where
  "arc_eligible eq allow_3d waiting is_end cmd pre cur =
     (let z_axis_ok = (allow_3d \<or> eq (pos_z cur) (pos_z pre))
      in \<not> is_end \<and> is_known_command cmd \<and> \<not> cmd_is_empty cmd \<and>
         (is_g1_g2 cmd \<and> z_axis_ok \<and>
          eq (x_offset cur) (x_offset pre) \<and>
          eq (y_offset cur) (y_offset pre) \<and>
          eq (z_offset cur) (z_offset pre) \<and>
          eq (x_firmware_offset cur) (x_firmware_offset pre) \<and>
          eq (y_firmware_offset cur) (y_firmware_offset pre) \<and>
          eq (z_firmware_offset cur) (z_firmware_offset pre) \<and>
          \<not> is_relative cur \<and>
          (\<not> waiting \<or>
           is_extruding (current_extruder cur) \<or>
           (is_retracting (current_extruder pre) \<and> is_retracting (current_extruder cur))) \<and>
          is_extruder_relative cur = is_extruder_relative pre \<and>
          (\<not> waiting \<or> pos_f pre = pos_f cur) \<and>
          (\<not> waiting \<or> feature_type_tag pre = feature_type_tag cur)))"

text \<open>
  Lines 464-502: the body of the eligible branch.  Outside Building the pending commands
  are written and the previous position is offered as the start point (the answer of
  that try\_add\_point is not looked at); then the current point is offered.
\<close>

definition add_point_to_arc ::
  "('trk, 'arc) collaborators \<Rightarrow> ('trk, 'arc) arc_welder \<Rightarrow> position \<Rightarrow> position \<Rightarrow> real
     \<Rightarrow> bool \<times> ('trk, 'arc) arc_welder" where
  "add_point_to_arc col s pre cur movement_length_mm =
     (let p = \<lparr>pt_x = gcode_x cur, pt_y = gcode_y cur, pt_z = gcode_z cur,
               pt_e_relative = e_relative (current_extruder cur), pt_distance = movement_length_mm\<rparr>;
          s1 = (if \<not> waiting_for_arc s
                then (let sa = s\<lparr>previous_is_extruder_relative := is_extruder_relative pre\<rparr>;
                          sb = write_unwritten_gcodes_to_file col sa;
                          previous_p = \<lparr>pt_x = gcode_x pre, pt_y = gcode_y pre, pt_z = gcode_z pre,
                                        pt_e_relative = e_relative (current_extruder pre), pt_distance = 0\<rparr>
                      in sb\<lparr>current_arc := snd (try_add_point col (current_arc sb) previous_p)\<rparr>)
                else s);
          r = try_add_point col (current_arc s1) p;
          s2 = s1\<lparr>current_arc := snd r\<rparr>
      in if fst r
         then (True, if \<not> waiting_for_arc s2
                     then s2\<lparr>waiting_for_arc := True, previous_feedrate := pos_f pre\<rparr>
                     else s2)
         else (False, s2))"

text \<open>Lines 386-503: everything before the decision of line 584.\<close>

definition track_and_try_add ::
  "('trk, 'arc) collaborators \<Rightarrow> ('trk, 'arc) arc_welder \<Rightarrow> parsed_command \<Rightarrow> bool \<Rightarrow> bool
     \<Rightarrow> bool \<times> real \<times> position \<times> ('trk, 'arc) arc_welder" where
  "track_and_try_add col s cmd is_end is_reprocess =
     (let s0 = s\<lparr>source_position :=
                  position_update col (source_position s) cmd (lines_processed s) (gcodes_processed s) (- 1)\<rparr>;
          cur = get_current_position col (source_position s0);
          pre = get_previous_position col (source_position s0);
          movement_length_mm = get_movement_length_mm col s0 pre cur;
          s1 = update_source_statistics s0 movement_length_mm is_reprocess;
          s2 = update_dynamic_precision col s1 cmd
      in if arc_eligible (is_equal col) (allow_3d_arcs s2) (waiting_for_arc s2) is_end cmd pre cur
         then (let r = add_point_to_arc col s2 pre cur movement_length_mm
               in (fst r, movement_length_mm, pre, snd r))
         else (False, movement_length_mm, pre, s2))"

text \<open>Lines 643-653: the command is queued, and the queue written unless an arc is being built.\<close>

definition queue_command ::
  "('trk, 'arc) collaborators \<Rightarrow> ('trk, 'arc) arc_welder \<Rightarrow> bool \<Rightarrow> real \<Rightarrow> ('trk, 'arc) arc_welder" where
  "queue_command col s arc_added movement_length_mm =
     (let s1 = (if waiting_for_arc s \<or> \<not> arc_added
                then s\<lparr>unwritten_commands := unwritten_commands s @
                         [new_unwritten_command col (get_current_position col (source_position s))
                            movement_length_mm]\<rparr>
                else s)
      in if \<not> waiting_for_arc s1 then write_unwritten_gcodes_to_file col s1 else s1)"

text \<open>
  process\_gcode, lines 377-654.  The \<^verbatim>\<open>int\<close> it returns is always 0 and no caller reads it,
  so the model returns the members, or the failure of the container.
\<close>

function process_gcode ::
  "('trk, 'arc) collaborators \<Rightarrow> ('trk, 'arc) arc_welder \<Rightarrow> parsed_command \<Rightarrow> bool \<Rightarrow> bool
     \<Rightarrow> error + ('trk, 'arc) arc_welder" where
  "process_gcode col s cmd is_end is_reprocess =
     (case track_and_try_add col s cmd is_end is_reprocess of
        (arc_added, movement_length_mm, pre, s3) \<Rightarrow>
          if \<not> arc_added \<and> \<not> (cmd_is_empty cmd \<and> length (comment cmd) = 0)
          then
            if get_num_segments col (current_arc s3) < get_min_segments col (current_arc s3)
            then Inr (queue_command col
                        (s3\<lparr>waiting_for_arc := False, current_arc := clear col (current_arc s3)\<rparr>)
                        arc_added movement_length_mm)
            else if waiting_for_arc s3
            then
              if is_shape col (current_arc s3)
              then
                (case write_arc_gcodes col
                        (s3\<lparr>points_compressed :=
                              points_compressed s3 + (get_num_segments col (current_arc s3) - 1),
                            arcs_created := arcs_created s3 + 1\<rparr>)
                        (is_extruder_relative pre) (pos_f pre) of
                   Inl e \<Rightarrow> Inl e
                 | Inr s5 \<Rightarrow>
                     if \<not> is_end then process_gcode col s5 cmd False True else Inr s5)
              else Inr (queue_command col
                          (s3\<lparr>current_arc := clear col (current_arc s3), waiting_for_arc := False\<rparr>)
                          arc_added movement_length_mm)
            else Inr (queue_command col s3 arc_added movement_length_mm)
          else Inr (queue_command col s3 arc_added movement_length_mm))"
  by pat_completeness auto
termination
proof (relation "measure (\<lambda>(col, s, cmd, is_end, is_reprocess). if waiting_for_arc s then 1 else 0)")
  show "wf (measure (\<lambda>(col :: ('trk, 'arc) collaborators, s :: ('trk, 'arc) arc_welder,
                        cmd :: parsed_command, is_end :: bool, is_reprocess :: bool).
                       if waiting_for_arc s then 1 else 0))"
    by simp
next
  fix col :: "('trk, 'arc) collaborators" and s s3 s5 :: "('trk, 'arc) arc_welder"
    and cmd :: parsed_command and is_end is_reprocess arc_added :: bool
    and x2 :: "real \<times> position \<times> ('trk, 'arc) arc_welder"
    and movement_length_mm :: real and y :: "position \<times> ('trk, 'arc) arc_welder" and pre :: position
  assume t: "(arc_added, x2) = track_and_try_add col s cmd is_end is_reprocess"
    and x2: "(movement_length_mm, y) = x2" and y: "(pre, s3) = y"
    and na: "\<not> arc_added \<and> \<not> (cmd_is_empty cmd \<and> length (comment cmd) = 0)"
    and w3: "waiting_for_arc s3"
    and wr: "write_arc_gcodes col
               (s3\<lparr>points_compressed := points_compressed s3 + (get_num_segments col (current_arc s3) - 1),
                   arcs_created := arcs_created s3 + 1\<rparr>)
               (is_extruder_relative pre) (pos_f pre) = Inr s5"
  have flush: "waiting_for_arc (write_unwritten_gcodes_to_file col u) = waiting_for_arc u"
    for u :: "('trk, 'arc) arc_welder"
    by (simp add: write_unwritten_gcodes_to_file_def)
  have add: "waiting_for_arc (snd (add_point_to_arc col u p c m)) =
               (waiting_for_arc u \<or> fst (add_point_to_arc col u p c m))"
    for u :: "('trk, 'arc) arc_welder" and p c m
    by (simp add: add_point_to_arc_def Let_def flush)
  have stat: "waiting_for_arc (update_source_statistics u m r) = waiting_for_arc u"
    for u :: "('trk, 'arc) arc_welder" and m r
    by (simp add: update_source_statistics_def)
  have prec: "waiting_for_arc (update_dynamic_precision col u c) = waiting_for_arc u"
    for u :: "('trk, 'arc) arc_welder" and c
    by (simp add: update_dynamic_precision_def)
  have eq: "track_and_try_add col s cmd is_end is_reprocess = (False, movement_length_mm, pre, s3)"
    using t x2 y na by (metis (full_types))
  have "waiting_for_arc s3 = waiting_for_arc s"
    using eq unfolding track_and_try_add_def Let_def
    by (auto simp: add stat prec split: if_splits)
  with w3 have ws: "waiting_for_arc s" by simp
  have "\<not> waiting_for_arc s5"
    using wr
    by (auto simp: write_arc_gcodes_def Let_def split: sum.splits)
  with ws show "((col, s5, cmd, False, True), (col, s, cmd, is_end, is_reprocess))
      \<in> measure (\<lambda>(col, s, cmd, is_end, is_reprocess). if waiting_for_arc s then 1 else 0)"
    by simp
qed


declare process_gcode.simps [simp del]

section \<open>Progress\<close>

text \<open>One call of \<^verbatim>\<open>clock()\<close>.\<close>

definition clock :: "world \<Rightarrow> ('trk, 'arc) arc_welder \<Rightarrow> real \<times> ('trk, 'arc) arc_welder" where
  "clock w s = (clock_at w (clock_reads s), s\<lparr>clock_reads := Suc (clock_reads s)\<rparr>)"

text \<open>get\_next\_update\_time and get\_time\_elapsed, lines 176-184\<close>

definition get_next_update_time ::
  "world \<Rightarrow> ('trk, 'arc) arc_welder \<Rightarrow> real \<times> ('trk, 'arc) arc_welder" where
  "get_next_update_time w s =
     (let r = clock w s
      in (fst r + notification_period_seconds s * clocks_per_sec w, snd r))"

definition get_time_elapsed :: "world \<Rightarrow> real \<Rightarrow> real \<Rightarrow> real" where
  "get_time_elapsed w start_clock end_clock = (end_clock - start_clock) / clocks_per_sec w"

text \<open>\<^verbatim>\<open>output_file_.tellp()\<close>: the number of bytes written, or -1 on a stream that is not open.\<close>

definition tellp :: "('trk, 'arc) arc_welder \<Rightarrow> int" where
  "tellp s = (if output_file_is_open s then int (length (output_file s)) else - 1)"

text \<open>
  get\_progress\_, lines 351-375.  It starts from a default-constructed progress and reads
  the clock once.
\<close>

definition get_progress ::
  "('trk, 'arc) collaborators \<Rightarrow> world \<Rightarrow> ('trk, 'arc) arc_welder \<Rightarrow> int \<Rightarrow> real
     \<Rightarrow> arc_welder_progress \<times> ('trk, 'arc) arc_welder" where
  "get_progress col w s source_file_position start_clock =
     (let p1 = (new_progress col)
                 \<lparr>pg_gcodes_processed := gcodes_processed s,
                  pg_lines_processed := lines_processed s,
                  pg_points_compressed := points_compressed s,
                  pg_arcs_created := arcs_created s,
                  pg_source_file_position := source_file_position,
                  pg_target_file_size := tellp s,
                  pg_source_file_size := file_size s\<rparr>;
          bytesRemaining = file_size s - source_file_position;
          p2 = p1\<lparr>pg_percent_complete :=
                    real_of_int source_file_position / real_of_int (file_size s) * 100\<rparr>;
          r = clock w s;
          p3 = p2\<lparr>pg_seconds_elapsed := get_time_elapsed w start_clock (fst r)\<rparr>;
          bytesPerSecond = real_of_int source_file_position / pg_seconds_elapsed p3;
          p4 = p3\<lparr>pg_seconds_remaining := real_of_int bytesRemaining / bytesPerSecond\<rparr>;
          p5 = (if source_file_position > 0
                then p4\<lparr>pg_compression_ratio :=
                          real_of_int source_file_position / real_of_int (pg_target_file_size p4),
                        pg_compression_percent :=
                          (1 - real_of_int (pg_target_file_size p4) / real_of_int source_file_position)
                            * 100\<rparr>
                else p4)
      in (p5\<lparr>pg_num_firmware_compensations := get_num_firmware_compensations col (current_arc s),
              pg_segment_statistics := segment_statistics s\<rparr>,
          snd r))"

text \<open>on\_progress\_, lines 337-349: the answer of the callback, or true without one.\<close>

definition on_progress ::
  "world \<Rightarrow> ('trk, 'arc) arc_welder \<Rightarrow> arc_welder_progress \<Rightarrow> bool \<times> ('trk, 'arc) arc_welder" where
  "on_progress w s p =
     (case progress_callback w of
        Some cb \<Rightarrow> (cb (callback_calls s) p, s\<lparr>callback_calls := Suc (callback_calls s)\<rparr>)
      | None \<Rightarrow> (True, s))"

section \<open>process\<close>

text \<open>
  reset, lines 153-163.  The history of the arcs written starts anew with the counters.
\<close>

definition reset :: "('trk, 'arc) arc_welder \<Rightarrow> ('trk, 'arc) arc_welder" where
  "reset s = s\<lparr>lines_processed := 0, gcodes_processed := 0, last_gcode_line_written := 0,
               file_size := 0, points_compressed := 0, arcs_created := 0,
               waiting_for_arc := False, emitted_arcs := []\<rparr>"

text \<open>add\_arcwelder\_comment\_to\_target, lines 796-830\<close>

definition add_arcwelder_comment_to_target ::
  "('trk, 'arc) collaborators \<Rightarrow> ('trk, 'arc) arc_welder \<Rightarrow> ('trk, 'arc) arc_welder" where
  "add_arcwelder_comment_to_target col s = s\<lparr>output_file := output_file s @ arcwelder_comment col\<rparr>"

text \<open>
  The local variables of process() that live across the loop, and \<open>lines_read\<close>, the
  number of lines \<^verbatim>\<open>std::getline\<close> has taken from the source stream.
\<close>

record locals =
  loop_cmd :: parsed_command
  continue_processing :: bool
  next_update_time :: real
  lines_with_no_commands :: int
  lines_read :: nat

text \<open>
  A failure of the container is a C++ exception: it ends the function that meets it and
  every caller.  \<open>bind_result\<close> passes a result on, or the failure through.
\<close>

fun bind_result :: "error + 'a \<Rightarrow> ('a \<Rightarrow> error + 'b) \<Rightarrow> error + 'b" where
  "bind_result (Inl e) f = Inl e"
| "bind_result (Inr x) f = f x"

text \<open>
  Lines 294-305, the end of the body of the loop: for a line with a command, every 1000
  lines, the clock is read, and past the update time the callback is asked.
\<close>

definition send_progress_update ::
  "('trk, 'arc) collaborators \<Rightarrow> world \<Rightarrow> real \<Rightarrow> bool \<Rightarrow> locals \<Rightarrow> ('trk, 'arc) arc_welder
     \<Rightarrow> error + ('trk, 'arc) arc_welder \<times> locals" where
  "send_progress_update col w start_clock has_gcode l1 s3 =
     (if has_gcode \<and> lines_processed s3 mod 1000 = 0
      then (let r = clock w s3
            in if next_update_time l1 < fst r
               then (let g = get_progress col w (snd r) (tellg_after w (lines_read l1)) start_clock;
                         a = on_progress w (snd g) (fst g);
                         n = get_next_update_time w (snd a)
                     in Inr (snd n, l1\<lparr>continue_processing := fst a, next_update_time := fst n\<rparr>))
               else Inr (snd r, l1))
      else Inr (s3, l1))"

text \<open>The body of the loop, lines 266-305, for the line just read.\<close>

definition process_line ::
  "('trk, 'arc) collaborators \<Rightarrow> world \<Rightarrow> real \<Rightarrow> string \<Rightarrow> ('trk, 'arc) arc_welder \<times> locals
     \<Rightarrow> error + ('trk, 'arc) arc_welder \<times> locals" where
  "process_line col w start_clock line st =
     (let s1 = (fst st)\<lparr>lines_processed := lines_processed (fst st) + 1\<rparr>;
          c = try_parse_gcode col line;
          has_gcode = (length (gcode c) > 0);
          s2 = (if has_gcode then s1\<lparr>gcodes_processed := gcodes_processed s1 + 1\<rparr> else s1);
          l1 = (if has_gcode then snd st
                else (snd st)\<lparr>lines_with_no_commands := lines_with_no_commands (snd st) + 1\<rparr>)
                 \<lparr>loop_cmd := c\<rparr>
      in bind_result (process_gcode col s2 c False False)
           (send_progress_update col w start_clock has_gcode l1))"

text \<open>
  The loop of line 264 over the lines still in the source.  The condition calls
  \<^verbatim>\<open>std::getline\<close> first and looks at continue\_processing second: a line is taken from the
  stream before the loop ends on a false continue\_processing.
\<close>

fun process_lines ::
  "('trk, 'arc) collaborators \<Rightarrow> world \<Rightarrow> real \<Rightarrow> string list \<Rightarrow> ('trk, 'arc) arc_welder \<times> locals
     \<Rightarrow> error + ('trk, 'arc) arc_welder \<times> locals" where
  "process_lines col w start_clock [] st = Inr st"
| "process_lines col w start_clock (line # rest) st =
     (if continue_processing (snd st)
      then bind_result
             (process_line col w start_clock line (fst st, (snd st)\<lparr>lines_read := Suc (lines_read (snd st))\<rparr>))
             (process_lines col w start_clock rest)
      else Inr (fst st, (snd st)\<lparr>lines_read := Suc (lines_read (snd st))\<rparr>))"

text \<open>
  What process() leaves behind: its result, the members, whether the local source
  stream is open, and how many lines were taken from it.
\<close>

record ('trk, 'arc) process_outcome =
  results :: arc_welder_results
  welder :: "('trk, 'arc) arc_welder"
  gcodeFile_is_open :: bool
  source_lines_read :: nat

text \<open>
  Lines 212-225: the tracking variables are reset, the first update time and the start
  clock are taken, the size of the source is stored.  The result is the start clock, the
  next update time and the members.
\<close>

definition process_begin ::
  "world \<Rightarrow> ('trk, 'arc) arc_welder \<Rightarrow> real \<times> real \<times> ('trk, 'arc) arc_welder" where
  "process_begin w s_in =
     (let s0 = reset s_in;
          n = get_next_update_time w s0;
          r = clock w (snd n)
      in (fst r, fst n, (snd r)\<lparr>file_size := source_file_size w\<rparr>))"

text \<open>
  Lines 241-262 once both files are open: the target starts empty, the header is
  written, the first progress update is sent and its answer kept.
\<close>

definition process_open ::
  "('trk, 'arc) collaborators \<Rightarrow> world \<Rightarrow> real \<Rightarrow> real \<Rightarrow> ('trk, 'arc) arc_welder
     \<Rightarrow> ('trk, 'arc) arc_welder \<times> locals" where
  "process_open col w start_clock next_update s1 =
     (let s2 = s1\<lparr>output_file_is_open := True, output_file := []\<rparr>;
          s3 = add_arcwelder_comment_to_target col s2;
          g = get_progress col w s3 (tellg_after w 0) start_clock;
          a = on_progress w (snd g) (fst g)
      in (snd a, \<lparr>loop_cmd = new_parsed_command col, continue_processing = fst a,
                  next_update_time = next_update, lines_with_no_commands = 0, lines_read = 0\<rparr>))"

text \<open>
  Lines 313-334: the pending commands are written, the final progress update is sent
  (its answer is not kept), both files are closed, the result is filled in.
\<close>

definition finish_process ::
  "('trk, 'arc) collaborators \<Rightarrow> world \<Rightarrow> real \<Rightarrow> locals \<Rightarrow> ('trk, 'arc) arc_welder
     \<Rightarrow> error + ('trk, 'arc) process_outcome" where
  "finish_process col w start_clock l s1 =
     (let s2 = write_unwritten_gcodes_to_file col s1;
          g = get_progress col w s2 (file_size s2) start_clock;
          a = on_progress w (snd g) (fst g);
          s3 = (snd a)\<lparr>output_file_is_open := False\<rparr>;
          r = clock w s3
      in Inr \<lparr>results = (new_results col)
                           \<lparr>success := continue_processing l,
                            cancelled := \<not> continue_processing l,
                            progress := fst g\<rparr>,
              welder = snd r,
              gcodeFile_is_open = False,
              source_lines_read = lines_read l\<rparr>)"

text \<open>Lines 308-334, the end of the stream: the last shape first, then the rest.\<close>

definition process_end ::
  "('trk, 'arc) collaborators \<Rightarrow> world \<Rightarrow> real \<Rightarrow> ('trk, 'arc) arc_welder \<times> locals
     \<Rightarrow> error + ('trk, 'arc) process_outcome" where
  "process_end col w start_clock st =
     bind_result
       (if is_shape col (current_arc (fst st)) \<and> waiting_for_arc (fst st)
        then process_gcode col (fst st) (loop_cmd (snd st)) True False
        else Inr (fst st))
       (finish_process col w start_clock (snd st))"

text \<open>
  process, lines 186-335.  The target stream is taken to be closed when process() is
  entered, as the constructor and every return of process() leave it.  A source that
  cannot be opened leaves the local stream closed; on a target that cannot be opened
  line 247 closes it.
\<close>

definition process ::
  "('trk, 'arc) collaborators \<Rightarrow> world \<Rightarrow> ('trk, 'arc) arc_welder
     \<Rightarrow> error + ('trk, 'arc) process_outcome" where
  "process col w s_in =
     (let b = process_begin w s_in;
          start_clock = fst b;
          next_update = fst (snd b);
          s1 = snd (snd b)
      in case source_file w of
           None \<Rightarrow>
             Inr \<lparr>results = (new_results col)
                               \<lparr>success := False, message := ''Unable to open the source file.''\<rparr>,
                  welder = s1, gcodeFile_is_open = False, source_lines_read = 0\<rparr>
         | Some lines \<Rightarrow>
             if \<not> target_file_opens w
             then Inr \<lparr>results = (new_results col)
                                    \<lparr>success := False, message := ''Unable to open the target file.''\<rparr>,
                       welder = s1\<lparr>output_file_is_open := False\<rparr>,
                       gcodeFile_is_open = False, source_lines_read = 0\<rparr>
             else bind_result
                    (process_lines col w start_clock lines
                       (process_open col w start_clock next_update s1))
                    (process_end col w start_clock))"

section \<open>A small instance for evaluation\<close>

text \<open>
  Concrete collaborators on which the functions above can be run.  The tracker keeps
  the snapshots newest first, starts at X5 Y0 and reads the X, Y, E and F parameters of
  a command (absolute XY, relative E: a positive E extrudes, a negative E retracts).  The
  engine keeps the points it accepted; it accepts a point that lies on the circle of
  radius 5 around the origin, has a shape from 3 points on, and prints every arc as
  \<open>G3 <arc>\<close>.  The parser knows the lines of the examples below and reads every other
  line as an empty command.
\<close>

definition demo_start :: position where
  "demo_start =
     \<lparr>pos_x = 5, pos_y = 0, pos_z = 0, pos_f = 0,
      x_offset = 0, y_offset = 0, z_offset = 0,
      x_firmware_offset = 0, y_firmware_offset = 0, z_firmware_offset = 0,
      is_relative = False, is_extruder_relative = True, feature_type_tag = 0,
      has_xy_position_changed = False, gcode_x = 5, gcode_y = 0, gcode_z = 0,
      current_extruder = \<lparr>is_extruding = False, is_retracting = False, e_relative = 0, offset_e = 0\<rparr>,
      pos_command = \<lparr>command = [], gcode = [], comment = [], cmd_is_empty = True,
                      is_known_command = False, parameters = []\<rparr>\<rparr>"

definition demo_param :: "string \<Rightarrow> parsed_command \<Rightarrow> real option" where
  "demo_param n cmd = map_option double_value (find (\<lambda>p. param_name p = n) (parameters cmd))"

definition demo_current :: "position list \<Rightarrow> position" where
  "demo_current h = (case h of [] \<Rightarrow> demo_start | q # _ \<Rightarrow> q)"

definition demo_previous :: "position list \<Rightarrow> position" where
  "demo_previous h = (case h of q1 # q2 # _ \<Rightarrow> q2 | _ \<Rightarrow> demo_start)"

definition demo_update :: "position list \<Rightarrow> parsed_command \<Rightarrow> int \<Rightarrow> int \<Rightarrow> int \<Rightarrow> position list" where
  "demo_update h cmd line_number gcode_number file_position =
     (let q = demo_current h;
          nx = (case demo_param ''X'' cmd of Some v \<Rightarrow> v | None \<Rightarrow> pos_x q);
          ny = (case demo_param ''Y'' cmd of Some v \<Rightarrow> v | None \<Rightarrow> pos_y q);
          nf = (case demo_param ''F'' cmd of Some v \<Rightarrow> v | None \<Rightarrow> pos_f q);
          e = (case demo_param ''E'' cmd of Some v \<Rightarrow> v | None \<Rightarrow> 0)
      in q\<lparr>pos_x := nx, pos_y := ny, pos_f := nf, gcode_x := nx, gcode_y := ny,
           has_xy_position_changed := (\<not> (nx = pos_x q \<and> ny = pos_y q)),
           current_extruder := \<lparr>is_extruding = (e > 0), is_retracting = (e < 0), e_relative = e,
                                 offset_e = offset_e (current_extruder q) + e\<rparr>,
           pos_command := cmd\<rparr> # h)"

definition demo_try_add_point :: "printer_point list \<Rightarrow> printer_point \<Rightarrow> bool \<times> printer_point list" where
  "demo_try_add_point a p =
     (if pt_x p * pt_x p + pt_y p * pt_y p = 25 then (True, a @ [p]) else (False, a))"

definition demo_g1 :: "string \<Rightarrow> string \<Rightarrow> (string \<times> real) list \<Rightarrow> parsed_command" where
  "demo_g1 text note ps =
     \<lparr>command = ''G1'', gcode = text, comment = note, cmd_is_empty = False, is_known_command = True,
      parameters = map (\<lambda>(n, v). \<lparr>param_name = n, double_value = v, double_precision = 0\<rparr>) ps\<rparr>"

definition demo_blank :: parsed_command where
  "demo_blank = \<lparr>command = [], gcode = [], comment = [], cmd_is_empty = True,
                 is_known_command = False, parameters = []\<rparr>"

definition demo_parse :: "string \<Rightarrow> parsed_command" where
  "demo_parse line =
     (if line = ''G1 X4 Y3 E1'' then demo_g1 line [] [(''X'', 4), (''Y'', 3), (''E'', 1)]
      else if line = ''G1 X3 Y4 E1'' then demo_g1 line [] [(''X'', 3), (''Y'', 4), (''E'', 1)]
      else if line = ''G1 X0 Y5 E1'' then demo_g1 line [] [(''X'', 0), (''Y'', 5), (''E'', 1)]
      else if line = ''G1 X4 Y3 E-1'' then demo_g1 line [] [(''X'', 4), (''Y'', 3), (''E'', - 1)]
      else if line = ''G1 X9 Y9 E1'' then demo_g1 line [] [(''X'', 9), (''Y'', 9), (''E'', 1)]
      else if line = ''G1 X4 Y3 E1;a'' then demo_g1 ''G1 X4 Y3 E1'' ''a'' [(''X'', 4), (''Y'', 3), (''E'', 1)]
      else if line = ''G1 X3 Y4 E1;b'' then demo_g1 ''G1 X3 Y4 E1'' ''b'' [(''X'', 3), (''Y'', 4), (''E'', 1)]
      else if line = ''G1 X0 Y5 E1;b'' then demo_g1 ''G1 X0 Y5 E1'' ''b'' [(''X'', 0), (''Y'', 5), (''E'', 1)]
      else demo_blank)"

definition demo :: "(position list, printer_point list) collaborators" where
  "demo =
     \<lparr>position_update = demo_update,
      get_current_position = demo_current,
      get_previous_position = demo_previous,
      undo_update = tl,
      try_add_point = demo_try_add_point,
      get_num_segments = (\<lambda>a. int (length a)),
      get_min_segments = (\<lambda>a. 3),
      is_shape = (\<lambda>a. length a \<ge> 3),
      clear = (\<lambda>a. []),
      update_xyz_precision = (\<lambda>a n. a),
      update_e_precision = (\<lambda>a n. a),
      get_shape_gcode_relative = (\<lambda>a f. ''G3 <arc>''),
      get_shape_gcode_absolute = (\<lambda>a e f. ''G3 <arc>''),
      get_shape_length = (\<lambda>a. 0),
      get_num_firmware_compensations = (\<lambda>a. 0),
      is_equal = (=),
      get_cartesian_distance_xy = (\<lambda>x1 y1 x2 y2. \<bar>x2 - x1\<bar> + \<bar>y2 - y1\<bar>),
      get_cartesian_distance_xyz = (\<lambda>x1 y1 z1 x2 y2 z2. \<bar>x2 - x1\<bar> + \<bar>y2 - y1\<bar> + \<bar>z2 - z1\<bar>),
      try_parse_gcode = demo_parse,
      new_parsed_command = demo_blank,
      new_unwritten_command =
        (\<lambda>q len. \<lparr>serialized_text = gcode (pos_command q), uw_comment = comment (pos_command q),
                   extrusion_length = len\<rparr>),
      to_string = (\<lambda>u. if uw_comment u = [] then serialized_text u
                        else serialized_text u @ '';'' @ uw_comment u),
      new_progress =
        \<lparr>pg_gcodes_processed = 0, pg_lines_processed = 0, pg_points_compressed = 0,
         pg_arcs_created = 0, pg_source_file_position = 0, pg_target_file_size = 0,
         pg_source_file_size = 0, pg_percent_complete = 0, pg_seconds_elapsed = 0,
         pg_seconds_remaining = 0, pg_compression_ratio = 0, pg_compression_percent = 0,
         pg_num_firmware_compensations = 0, pg_segment_statistics = []\<rparr>,
      new_results =
        \<lparr>success = False, cancelled = False, message = ''Error not specified'',
         progress =
           \<lparr>pg_gcodes_processed = 0, pg_lines_processed = 0, pg_points_compressed = 0,
            pg_arcs_created = 0, pg_source_file_position = 0, pg_target_file_size = 0,
            pg_source_file_size = 0, pg_percent_complete = 0, pg_seconds_elapsed = 0,
            pg_seconds_remaining = 0, pg_compression_ratio = 0, pg_compression_percent = 0,
            pg_num_firmware_compensations = 0, pg_segment_statistics = []\<rparr>\<rparr>,
      arcwelder_comment = ''; header'' @ newline\<rparr>"

text \<open>The members as the constructor leaves them (lines 71-107), on the instance.\<close>

definition demo_welder :: "(position list, printer_point list) arc_welder" where
  "demo_welder =
     \<lparr>source_position = [], current_arc = [], unwritten_commands = [], segment_statistics = [],
      output_file = [], output_file_is_open = False, allow_3d_arcs = False,
      allow_dynamic_precision = False, notification_period_seconds = 1,
      lines_processed = 0, gcodes_processed = 0, file_size = 0, last_gcode_line_written = 0,
      points_compressed = 0, arcs_created = 0, waiting_for_arc = False,
      previous_feedrate = - 1, previous_is_extruder_relative = False,
      emitted_arcs = [], clock_reads = 0, callback_calls = 0\<rparr>"

definition demo_world :: "string list option \<Rightarrow> bool \<Rightarrow> world" where
  "demo_world file target_ok =
     \<lparr>source_file = file, target_file_opens = target_ok, source_file_size = 100,
      tellg_after = (\<lambda>n. int n), clock_at = (\<lambda>k. real k), clocks_per_sec = 1000,
      progress_callback = None\<rparr>"





text \<open>
  The members and the locals of process() on the instance when the loop has taken the
  given lines from the source (no callback, both files open).
\<close>

definition demo_after ::
  "string list \<Rightarrow> (position list, printer_point list) arc_welder \<times> locals" where
  "demo_after lines =
     (let w = demo_world (Some lines) True;
          b = process_begin w demo_welder
      in case process_lines demo w (fst b) lines (process_open demo w (fst b) (fst (snd b)) (snd (snd b))) of
           Inr st \<Rightarrow> st
         | Inl e \<Rightarrow> (demo_welder,
                     \<lparr>loop_cmd = demo_blank, continue_processing = False, next_update_time = 0,
                      lines_with_no_commands = 0, lines_read = 0\<rparr>))"

section \<open>Counter consistency\<close>


section \<open>Auxiliary facts\<close>

text \<open>The loop of pop\_back calls removes the last k entries, or fails on a shorter list.\<close>

lemma pop_back_loop_take:
  "pop_back_loop k xs =
     (if k \<le> length xs then Inr (take (length xs - k) xs) else Inl Pop_from_empty_list)"
proof (induction k arbitrary: xs)
  case 0
  show ?case by simp
next
  case (Suc k)
  show ?case
  proof (cases xs rule: rev_cases)
    case Nil
    then show ?thesis by (simp add: pop_back_def)
  next
    case (snoc ys y)
    have "pop_back_loop (Suc k) xs = pop_back_loop k ys"
      by (simp add: pop_back_def snoc)
    also have "\<dots> = (if k \<le> length ys then Inr (take (length ys - k) ys) else Inl Pop_from_empty_list)"
      by (rule Suc.IH)
    also have "\<dots> = (if Suc k \<le> length xs then Inr (take (length xs - Suc k) xs)
                      else Inl Pop_from_empty_list)"
      by (simp add: snoc)
    finally show ?thesis .
  qed
qed

lemma comment_loop_empty:
  "\<forall>u \<in> set us. uw_comment u = [] \<Longrightarrow> comment_loop us c = c"
  by (induction us arbitrary: c) auto

text \<open>What each step of process\_gcode leaves alone.\<close>

lemma write_unwritten_frame:
  "source_position (write_unwritten_gcodes_to_file col s) = source_position s"
  "current_arc (write_unwritten_gcodes_to_file col s) = current_arc s"
  "waiting_for_arc (write_unwritten_gcodes_to_file col s) = waiting_for_arc s"
  "arcs_created (write_unwritten_gcodes_to_file col s) = arcs_created s"
  "points_compressed (write_unwritten_gcodes_to_file col s) = points_compressed s"
  "emitted_arcs (write_unwritten_gcodes_to_file col s) = emitted_arcs s"
  "lines_processed (write_unwritten_gcodes_to_file col s) = lines_processed s"
  "gcodes_processed (write_unwritten_gcodes_to_file col s) = gcodes_processed s"
  "unwritten_commands (write_unwritten_gcodes_to_file col s) = []"
  "output_file (write_unwritten_gcodes_to_file col s)
     = output_file s @ lines_to_write col (unwritten_commands s)"
  "output_file_is_open (write_unwritten_gcodes_to_file col s) = output_file_is_open s"
  by (simp_all add: write_unwritten_gcodes_to_file_def)

lemma update_source_statistics_frame:
  "source_position (update_source_statistics s m r) = source_position s"
  "current_arc (update_source_statistics s m r) = current_arc s"
  "waiting_for_arc (update_source_statistics s m r) = waiting_for_arc s"
  "arcs_created (update_source_statistics s m r) = arcs_created s"
  "points_compressed (update_source_statistics s m r) = points_compressed s"
  "emitted_arcs (update_source_statistics s m r) = emitted_arcs s"
  "lines_processed (update_source_statistics s m r) = lines_processed s"
  "gcodes_processed (update_source_statistics s m r) = gcodes_processed s"
  "unwritten_commands (update_source_statistics s m r) = unwritten_commands s"
  "output_file (update_source_statistics s m r) = output_file s"
  "allow_3d_arcs (update_source_statistics s m r) = allow_3d_arcs s"
  "allow_dynamic_precision (update_source_statistics s m r) = allow_dynamic_precision s"
  by (simp_all add: update_source_statistics_def)

lemma update_dynamic_precision_frame:
  "source_position (update_dynamic_precision col s cmd) = source_position s"
  "waiting_for_arc (update_dynamic_precision col s cmd) = waiting_for_arc s"
  "arcs_created (update_dynamic_precision col s cmd) = arcs_created s"
  "points_compressed (update_dynamic_precision col s cmd) = points_compressed s"
  "emitted_arcs (update_dynamic_precision col s cmd) = emitted_arcs s"
  "lines_processed (update_dynamic_precision col s cmd) = lines_processed s"
  "gcodes_processed (update_dynamic_precision col s cmd) = gcodes_processed s"
  "unwritten_commands (update_dynamic_precision col s cmd) = unwritten_commands s"
  "output_file (update_dynamic_precision col s cmd) = output_file s"
  "allow_3d_arcs (update_dynamic_precision col s cmd) = allow_3d_arcs s"
  by (simp_all add: update_dynamic_precision_def)

lemma add_point_to_arc_frame:
  "source_position (snd (add_point_to_arc col s pre cur m)) = source_position s"
  "waiting_for_arc (snd (add_point_to_arc col s pre cur m))
     = (waiting_for_arc s \<or> fst (add_point_to_arc col s pre cur m))"
  "arcs_created (snd (add_point_to_arc col s pre cur m)) = arcs_created s"
  "points_compressed (snd (add_point_to_arc col s pre cur m)) = points_compressed s"
  "emitted_arcs (snd (add_point_to_arc col s pre cur m)) = emitted_arcs s"
  "lines_processed (snd (add_point_to_arc col s pre cur m)) = lines_processed s"
  "gcodes_processed (snd (add_point_to_arc col s pre cur m)) = gcodes_processed s"
  by (simp_all add: add_point_to_arc_def Let_def write_unwritten_frame)

lemma track_and_try_add_frame:
  assumes "track_and_try_add col s cmd is_end is_reprocess = (a, m, pre, s3)"
  shows "source_position s3
           = position_update col (source_position s) cmd (lines_processed s) (gcodes_processed s) (- 1)"
    and "waiting_for_arc s3 = (waiting_for_arc s \<or> a)"
    and "arcs_created s3 = arcs_created s"
    and "points_compressed s3 = points_compressed s"
    and "emitted_arcs s3 = emitted_arcs s"
    and "lines_processed s3 = lines_processed s"
    and "gcodes_processed s3 = gcodes_processed s"
  using assms unfolding track_and_try_add_def Let_def
  by (auto simp: add_point_to_arc_frame update_dynamic_precision_frame update_source_statistics_frame
      split: if_splits)

lemma queue_command_frame:
  "source_position (queue_command col s a m) = source_position s"
  "current_arc (queue_command col s a m) = current_arc s"
  "waiting_for_arc (queue_command col s a m) = waiting_for_arc s"
  "arcs_created (queue_command col s a m) = arcs_created s"
  "points_compressed (queue_command col s a m) = points_compressed s"
  "emitted_arcs (queue_command col s a m) = emitted_arcs s"
  "lines_processed (queue_command col s a m) = lines_processed s"
  "gcodes_processed (queue_command col s a m) = gcodes_processed s"
  by (simp_all add: queue_command_def Let_def write_unwritten_frame)

lemma write_arc_gcodes_frame:
  assumes "write_arc_gcodes col s rel f = Inr s'"
  shows "source_position s' = undo_update col (source_position s)"
    and "\<not> waiting_for_arc s'"
    and "arcs_created s' = arcs_created s"
    and "points_compressed s' = points_compressed s"
    and "emitted_arcs s' = emitted_arcs s @ [get_num_segments col (current_arc s)]"
    and "lines_processed s' = lines_processed s"
    and "gcodes_processed s' = gcodes_processed s"
    and "unwritten_commands s' = []"
  using assms
  by (auto simp: write_arc_gcodes_def Let_def write_unwritten_frame write_gcode_to_file_def
      split: sum.splits)

lemma get_movement_length_mm_tracker:
  "get_movement_length_mm col (s\<lparr>source_position := t\<rparr>) pre cur = get_movement_length_mm col s pre cur"
  unfolding get_movement_length_mm_def by (simp cong: if_cong)

text \<open>A pass that starts outside Building makes no commit and calls itself no further.\<close>

lemma process_gcode_idle:
  assumes "\<not> waiting_for_arc s"
  shows "\<exists>s'. process_gcode col s cmd is_end is_reprocess = Inr s' \<and>
           source_position s'
             = position_update col (source_position s) cmd (lines_processed s) (gcodes_processed s) (- 1) \<and>
           arcs_created s' = arcs_created s \<and>
           points_compressed s' = points_compressed s \<and>
           emitted_arcs s' = emitted_arcs s \<and>
           lines_processed s' = lines_processed s \<and>
           gcodes_processed s' = gcodes_processed s"
proof -
  obtain a m pre s3 where t: "track_and_try_add col s cmd is_end is_reprocess = (a, m, pre, s3)"
    by (metis prod_cases4)
  note f = track_and_try_add_frame [OF t]
  have w: "waiting_for_arc s3 = a" using f(2) assms by simp
  show ?thesis
    by (simp add: process_gcode.simps [of col s cmd is_end is_reprocess] t w f queue_command_frame)
qed

text \<open>The pass that commits: the arc is written, then the command is processed again.\<close>

lemma commit_pass:
  assumes t: "track_and_try_add col s cmd is_end is_reprocess = (False, m, pre, s3)"
    and ne: "\<not> (cmd_is_empty cmd \<and> comment cmd = [])"
    and w: "waiting_for_arc s"
    and n: "\<not> get_num_segments col (current_arc s3) < get_min_segments col (current_arc s3)"
    and sh: "is_shape col (current_arc s3)"
  shows "process_gcode col s cmd is_end is_reprocess =
           (case write_arc_gcodes col
                   (s3\<lparr>points_compressed :=
                         points_compressed s3 + (get_num_segments col (current_arc s3) - 1),
                       arcs_created := arcs_created s3 + 1\<rparr>)
                   (is_extruder_relative pre) (pos_f pre) of
              Inl e \<Rightarrow> Inl e
            | Inr s5 \<Rightarrow> if \<not> is_end then process_gcode col s5 cmd False True else Inr s5)"
proof -
  have w3: "waiting_for_arc s3" using track_and_try_add_frame(2) [OF t] w by simp
  show ?thesis
    using ne n sh w3 by (simp add: process_gcode.simps [of col s cmd is_end is_reprocess] t)
qed

lemma write_arc_gcodes_succeeds:
  assumes "get_num_segments col (current_arc s) - 1 \<le> int (length (unwritten_commands s))"
  shows "\<exists>s'. write_arc_gcodes col s rel f = Inr s'"
proof -
  have c: "\<exists>c. get_comment_for_arc col s = Inr c"
    using assms by (simp add: get_comment_for_arc_def Let_def)
  have p: "\<exists>ys. pop_back_loop (nat (get_num_segments col (current_arc s) - 1)) (unwritten_commands s) = Inr ys"
    using assms by (simp add: pop_back_loop_take)
  from c p show ?thesis
    by (auto simp: write_arc_gcodes_def Let_def)
qed

lemma write_arc_gcodes_needs_entries:
  assumes "write_arc_gcodes col s rel f = Inr s'"
  shows "get_num_segments col (current_arc s) - 1 \<le> int (length (unwritten_commands s))"
  using assms
  by (auto simp: write_arc_gcodes_def get_comment_for_arc_def Let_def split: sum.splits if_splits)

text \<open>The instance after two moves on the circle: an arc of three points is being built.\<close>

lemma demo_building_eval:
  "(case demo_after [''G1 X4 Y3 E1'', ''G1 X3 Y4 E1''] of (s, l) \<Rightarrow>
     (waiting_for_arc s, length (unwritten_commands s), get_num_segments demo (current_arc s), arcs_created s,
      points_compressed s, emitted_arcs s)) = (True, 2, 3, 0, 0, [])"
  by code_simp






















section \<open>Properties of write\_arc\_gcodes and get\_comment\_for\_arc\<close>

text \<open>
  What write\_arc\_gcodes removes, for every tracker and engine.  It emits an arc of N
  points exactly when the list holds at least N-1 commands (on a shorter list the
  container fails).  Whenever it does, exactly the last N-1 entries of
  unwritten\_commands have been removed by pop\_back; the entries before them are left
  as they are, in order, and are written to the target before the line of the arc.
\<close>

lemma write_arc_gcodes_pops_last_entries:
  "((\<exists>s'. write_arc_gcodes col s is_extruder_rel current_feedrate = Inr s') \<longleftrightarrow>
      get_num_segments col (current_arc s) - 1 \<le> int (length (unwritten_commands s))) \<and>
   (\<forall>s'. write_arc_gcodes col s is_extruder_rel current_feedrate = Inr s' \<longrightarrow>
      (\<exists>kept absorbed g.
         unwritten_commands s = kept @ absorbed \<and>
         length absorbed = nat (get_num_segments col (current_arc s) - 1) \<and>
         pop_back_loop (nat (get_num_segments col (current_arc s) - 1)) (unwritten_commands s) = Inr kept \<and>
         output_file s' = output_file s @ lines_to_write col kept @ g @ newline \<and>
         unwritten_commands s' = [] \<and>
         emitted_arcs s' = emitted_arcs s @ [get_num_segments col (current_arc s)]))"
proof (intro conjI allI impI iffI)
  assume "\<exists>s'. write_arc_gcodes col s is_extruder_rel current_feedrate = Inr s'"
  then show "get_num_segments col (current_arc s) - 1 \<le> int (length (unwritten_commands s))"
    using write_arc_gcodes_needs_entries by blast
next
  assume "get_num_segments col (current_arc s) - 1 \<le> int (length (unwritten_commands s))"
  then show "\<exists>s'. write_arc_gcodes col s is_extruder_rel current_feedrate = Inr s'"
    by (rule write_arc_gcodes_succeeds)
next
  fix s'
  assume wr: "write_arc_gcodes col s is_extruder_rel current_feedrate = Inr s'"
  have len: "get_num_segments col (current_arc s) - 1 \<le> int (length (unwritten_commands s))"
    using wr by (rule write_arc_gcodes_needs_entries)
  let ?k = "nat (get_num_segments col (current_arc s) - 1)"
  let ?kept = "take (length (unwritten_commands s) - ?k) (unwritten_commands s)"
  let ?absorbed = "drop (length (unwritten_commands s) - ?k) (unwritten_commands s)"
  have k: "?k \<le> length (unwritten_commands s)" using len by simp
  have pop: "pop_back_loop ?k (unwritten_commands s) = Inr ?kept"
    using k by (simp add: pop_back_loop_take)
  obtain c where c: "get_comment_for_arc col s = Inr c"
    using len by (simp add: get_comment_for_arc_def Let_def)
  have split: "unwritten_commands s = ?kept @ ?absorbed" by simp
  have la: "length ?absorbed = ?k" using k by simp
  have "\<exists>g. output_file s' = output_file s @ lines_to_write col ?kept @ g @ newline"
    using wr
    by (auto simp: write_arc_gcodes_def c pop Let_def write_gcode_to_file_def
        write_unwritten_gcodes_to_file_def)
  then obtain g where g: "output_file s' = output_file s @ lines_to_write col ?kept @ g @ newline"
    by blast
  note f = write_arc_gcodes_frame [OF wr]
  have "unwritten_commands s = ?kept @ ?absorbed \<and>
        length ?absorbed = ?k \<and>
        pop_back_loop ?k (unwritten_commands s) = Inr ?kept \<and>
        output_file s' = output_file s @ lines_to_write col ?kept @ g @ newline \<and>
        unwritten_commands s' = [] \<and>
        emitted_arcs s' = emitted_arcs s @ [get_num_segments col (current_arc s)]"
    using split la pop g f(8) f(5) by blast
  then show "\<exists>kept absorbed g.
         unwritten_commands s = kept @ absorbed \<and>
         length absorbed = nat (get_num_segments col (current_arc s) - 1) \<and>
         pop_back_loop (nat (get_num_segments col (current_arc s) - 1)) (unwritten_commands s) = Inr kept \<and>
         output_file s' = output_file s @ lines_to_write col kept @ g @ newline \<and>
         unwritten_commands s' = [] \<and>
         emitted_arcs s' = emitted_arcs s @ [get_num_segments col (current_arc s)]"
    by blast
qed

lemma write_arc_gcodes_pops_last_entries_example:
  "\<exists>s' kept absorbed.
     write_arc_gcodes demo (fst (demo_after [''G1 X4 Y3 E1'', ''G1 X3 Y4 E1''])) True 0 = Inr s' \<and>
     unwritten_commands (fst (demo_after [''G1 X4 Y3 E1'', ''G1 X3 Y4 E1''])) = kept @ absorbed \<and>
     length absorbed = 2 \<and> unwritten_commands s' = [] \<and> emitted_arcs s' = [3]"
proof -
  let ?s = "fst (demo_after [''G1 X4 Y3 E1'', ''G1 X3 Y4 E1''])"
  have ev: "length (unwritten_commands ?s) = 2 \<and> get_num_segments demo (current_arc ?s) = 3 \<and>
            emitted_arcs ?s = []"
    using demo_building_eval by (simp add: case_prod_unfold)
  then have len: "get_num_segments demo (current_arc ?s) - 1 \<le> int (length (unwritten_commands ?s))"
    by simp
  note th = write_arc_gcodes_pops_last_entries [of demo ?s True 0]
  from th len obtain s' where wr: "write_arc_gcodes demo ?s True 0 = Inr s'" by blast
  from th wr ev show ?thesis by auto
qed

text \<open>
  Claim C2, run on the instance.  The source is a move on the circle, a blank line, a
  second move on the circle and a move off it.  The blank line is queued while the arc
  is being built, so before the commit the list holds three entries for an arc of three
  points (the start and the two moves).  The N-1 = 2 entries removed are the second
  move and the blank line, not the two moves of the arc: the first move stays in the
  list and is written in front of the arc that already covers it.
\<close>

theorem blank_line_inside_arc:
  "map serialized_text (unwritten_commands
     (fst (demo_after [''G1 X4 Y3 E1'', '''', ''G1 X3 Y4 E1''])))
     = [''G1 X4 Y3 E1'', '''', ''G1 X3 Y4 E1''] \<and>
   map (\<lambda>p. (pt_x p, pt_y p)) (current_arc
     (fst (demo_after [''G1 X4 Y3 E1'', '''', ''G1 X3 Y4 E1''])))
     = [(5, 0), (4, 3), (3, 4)] \<and>
   waiting_for_arc (fst (demo_after [''G1 X4 Y3 E1'', '''', ''G1 X3 Y4 E1''])) \<and>
   pop_back_loop
     (nat (get_num_segments demo
        (current_arc (fst (demo_after [''G1 X4 Y3 E1'', '''', ''G1 X3 Y4 E1'']))) - 1))
     (map serialized_text (unwritten_commands
        (fst (demo_after [''G1 X4 Y3 E1'', '''', ''G1 X3 Y4 E1'']))))
     = Inr [''G1 X4 Y3 E1''] \<and>
   output_file (welder (projr
     (process demo (demo_world (Some [''G1 X4 Y3 E1'', '''', ''G1 X3 Y4 E1'', ''G1 X9 Y9 E1'']) True)
        demo_welder)))
     = ''; header'' @ newline @ ''G1 X4 Y3 E1'' @ newline @ ''G3 <arc>'' @ newline
        @ ''G1 X9 Y9 E1'' @ newline \<and>
   emitted_arcs (welder (projr
     (process demo (demo_world (Some [''G1 X4 Y3 E1'', '''', ''G1 X3 Y4 E1'', ''G1 X9 Y9 E1'']) True)
        demo_welder))) = [3]"
  by code_simp

text \<open>
  The loop of get\_comment\_for\_arc on three commands with the comments a, b, b (a and b
  different and not empty): the second b is taken again, whatever a and b are.
\<close>

lemma comment_loop_repeats:
  assumes "uw_comment u = a" "uw_comment v = b" "a \<noteq> []" "b \<noteq> []" "a \<noteq> b"
  shows "comment_loop [u, v, v] [] = a @ '' - '' @ b @ '' - '' @ b"
proof -
  have "length b \<noteq> length (a @ '' - '' @ b)" by simp
  then have "b \<noteq> a @ '' - '' @ b" by metis
  then show ?thesis using assms by simp
qed

text \<open>
  Claim C8, run on the instance.  Three moves of one arc carry the comments a, b and b.
  get\_comment\_for\_arc compares each comment with the whole comment built so far (line
  720), not with the comments already taken, so the second b is appended again: the
  line of the arc ends in \<open>;a - b - b\<close>, where the distinct comments are a and b.
\<close>

theorem arc_comment_repeats_comment:
  "get_comment_for_arc demo (fst (demo_after [''G1 X4 Y3 E1;a'', ''G1 X3 Y4 E1;b'', ''G1 X0 Y5 E1;b'']))
     = Inr ''a - b - b'' \<and>
   map uw_comment (unwritten_commands
     (fst (demo_after [''G1 X4 Y3 E1;a'', ''G1 X3 Y4 E1;b'', ''G1 X0 Y5 E1;b''])))
     = [''a'', ''b'', ''b''] \<and>
   get_num_segments demo
     (current_arc (fst (demo_after [''G1 X4 Y3 E1;a'', ''G1 X3 Y4 E1;b'', ''G1 X0 Y5 E1;b'']))) = 4 \<and>
   output_file (welder (projr
     (process demo (demo_world (Some [''G1 X4 Y3 E1;a'', ''G1 X3 Y4 E1;b'', ''G1 X0 Y5 E1;b'']) True)
        demo_welder)))
     = ''; header'' @ newline @ ''G3 <arc>;a - b - b'' @ newline"
  by code_simp

section \<open>One call of process\_gcode\<close>

text \<open>
  Claim C1.  A command that is not added to the arc while Building, with an arc that is
  a shape, and not at the end of the stream, commits the arc: the tracker is rolled back
  by one undo\_update and the same command is applied to it once more, exactly one arc is
  written and counted, and the call returns.  process\_gcode is a total function (its
  termination is proved with the definition: the call it makes on itself starts outside
  Building, which cannot commit).
\<close>

theorem commit_reprocesses_once:
  assumes t: "track_and_try_add col s cmd False is_reprocess = (False, m, pre, s3)"
    and w: "waiting_for_arc s"
    and ne: "\<not> (cmd_is_empty cmd \<and> comment cmd = [])"
    and n: "\<not> get_num_segments col (current_arc s3) < get_min_segments col (current_arc s3)"
    and sh: "is_shape col (current_arc s3)"
    and len: "get_num_segments col (current_arc s3) - 1 \<le> int (length (unwritten_commands s3))"
  shows "\<exists>s'. process_gcode col s cmd False is_reprocess = Inr s' \<and>
           source_position s'
             = position_update col
                 (undo_update col
                    (position_update col (source_position s) cmd
                       (lines_processed s) (gcodes_processed s) (- 1)))
                 cmd (lines_processed s) (gcodes_processed s) (- 1) \<and>
           arcs_created s' = arcs_created s + 1 \<and>
           points_compressed s' = points_compressed s + (get_num_segments col (current_arc s3) - 1) \<and>
           emitted_arcs s' = emitted_arcs s @ [get_num_segments col (current_arc s3)]"
proof -
  let ?s4 = "s3\<lparr>points_compressed := points_compressed s3 + (get_num_segments col (current_arc s3) - 1),
                arcs_created := arcs_created s3 + 1\<rparr>"
  note f3 = track_and_try_add_frame [OF t]
  have "get_num_segments col (current_arc ?s4) - 1 \<le> int (length (unwritten_commands ?s4))"
    using len by simp
  then obtain s5 where wr: "write_arc_gcodes col ?s4 (is_extruder_relative pre) (pos_f pre) = Inr s5"
    using write_arc_gcodes_succeeds by blast
  note f5 = write_arc_gcodes_frame [OF wr]
  have first: "process_gcode col s cmd False is_reprocess = process_gcode col s5 cmd False True"
    using commit_pass [OF t ne w n sh] wr by simp
  obtain s' where second: "process_gcode col s5 cmd False True = Inr s'"
    and sp: "source_position s'
               = position_update col (source_position s5) cmd (lines_processed s5) (gcodes_processed s5) (- 1)"
    and ac: "arcs_created s' = arcs_created s5"
    and pc: "points_compressed s' = points_compressed s5"
    and ea: "emitted_arcs s' = emitted_arcs s5"
    using process_gcode_idle [OF f5(2), of col cmd False True] by blast
  have "process_gcode col s cmd False is_reprocess = Inr s'"
    using first second by simp
  moreover have "source_position s'
      = position_update col
          (undo_update col
             (position_update col (source_position s) cmd (lines_processed s) (gcodes_processed s) (- 1)))
          cmd (lines_processed s) (gcodes_processed s) (- 1)"
    using sp f5 f3 by simp
  moreover have "arcs_created s' = arcs_created s + 1"
    using ac f5 f3 by simp
  moreover have "points_compressed s' = points_compressed s + (get_num_segments col (current_arc s3) - 1)"
    using pc f5 f3 by simp
  moreover have "emitted_arcs s' = emitted_arcs s @ [get_num_segments col (current_arc s3)]"
    using ea f5 f3 by simp
  ultimately show ?thesis by blast
qed

theorem commit_reprocesses_once_witness:
  "\<exists>s'. process_gcode demo (fst (demo_after [''G1 X4 Y3 E1'', ''G1 X3 Y4 E1'']))
          (demo_parse ''G1 X9 Y9 E1'') False False = Inr s' \<and>
        arcs_created s' = 1 \<and> points_compressed s' = 2 \<and> emitted_arcs s' = [3]"
proof -
  let ?s = "fst (demo_after [''G1 X4 Y3 E1'', ''G1 X3 Y4 E1''])"
  let ?cmd = "demo_parse ''G1 X9 Y9 E1''"
  let ?t = "track_and_try_add demo ?s ?cmd False False"
  let ?s3 = "snd (snd (snd ?t))"
  have ev: "(case ?t of (a, m, pre, s3) \<Rightarrow>
              (a, get_num_segments demo (current_arc s3), get_min_segments demo (current_arc s3),
               is_shape demo (current_arc s3), length (unwritten_commands s3)))
            = (False, 3, 3, True, 2)"
    by code_simp
  have t: "?t = (False, fst (snd ?t), fst (snd (snd ?t)), ?s3)"
    using ev by (simp add: case_prod_unfold prod_eq_iff)
  have s3: "get_num_segments demo (current_arc ?s3) = 3" "get_min_segments demo (current_arc ?s3) = 3"
    "is_shape demo (current_arc ?s3)" "length (unwritten_commands ?s3) = 2"
    using ev by (simp_all add: case_prod_unfold)
  have ev0: "waiting_for_arc ?s \<and> arcs_created ?s = 0 \<and> points_compressed ?s = 0 \<and> emitted_arcs ?s = []"
    using demo_building_eval by (simp add: case_prod_unfold)
  have ne: "\<not> (cmd_is_empty ?cmd \<and> comment ?cmd = [])"
    by code_simp
  from commit_reprocesses_once [OF t _ ne] s3 ev0
  show ?thesis by auto
qed

text \<open>
  Claim C9.  A command that is empty and has an empty comment, arriving while
  waiting\_for\_arc is true, never ends the arc: the call returns with waiting\_for\_arc
  still true, nothing written and nothing counted, the command appended to
  unwritten\_commands, and the arc as it was (an empty command has no command token;
  for a token G0 or G1 under dynamic precision the arc would get the precision update
  of lines 420-436 and nothing else).
\<close>

theorem blank_line_keeps_arc:
  assumes e: "cmd_is_empty cmd" and c: "comment cmd = []" and w: "waiting_for_arc s"
  shows "\<exists>s'. process_gcode col s cmd is_end is_reprocess = Inr s' \<and>
           waiting_for_arc s' \<and>
           current_arc s' = current_arc (update_dynamic_precision col s cmd) \<and>
           (command cmd = [] \<longrightarrow> current_arc s' = current_arc s) \<and>
           unwritten_commands s' = unwritten_commands s @
             [new_unwritten_command col (get_current_position col (source_position s'))
                (get_movement_length_mm col s
                   (get_previous_position col (source_position s'))
                   (get_current_position col (source_position s')))] \<and>
           source_position s'
             = position_update col (source_position s) cmd (lines_processed s) (gcodes_processed s) (- 1) \<and>
           output_file s' = output_file s \<and>
           arcs_created s' = arcs_created s \<and>
           points_compressed s' = points_compressed s \<and>
           emitted_arcs s' = emitted_arcs s"
proof -
  let ?s0 = "s\<lparr>source_position :=
                 position_update col (source_position s) cmd (lines_processed s) (gcodes_processed s) (- 1)\<rparr>"
  let ?cur = "get_current_position col (source_position ?s0)"
  let ?pre = "get_previous_position col (source_position ?s0)"
  let ?m = "get_movement_length_mm col ?s0 ?pre ?cur"
  let ?s2 = "update_dynamic_precision col (update_source_statistics ?s0 ?m is_reprocess) cmd"
  have m: "?m = get_movement_length_mm col s ?pre ?cur"
    by (rule get_movement_length_mm_tracker)
  have t: "track_and_try_add col s cmd is_end is_reprocess = (False, ?m, ?pre, ?s2)"
    using e by (simp add: track_and_try_add_def arc_eligible_def Let_def)
  have r: "process_gcode col s cmd is_end is_reprocess = Inr (queue_command col ?s2 False ?m)"
    using e c by (simp add: process_gcode.simps [of col s cmd is_end is_reprocess] t)
  have w2: "waiting_for_arc ?s2"
    using w by (simp add: update_dynamic_precision_frame update_source_statistics_frame)
  have arc: "current_arc ?s2 = current_arc (update_dynamic_precision col s cmd)"
    by (simp add: update_dynamic_precision_def update_source_statistics_def)
  have arc': "command cmd = [] \<longrightarrow> current_arc ?s2 = current_arc s"
    by (simp add: update_dynamic_precision_def update_source_statistics_def is_g1_g2_def)
  have q: "queue_command col ?s2 False ?m =
             ?s2\<lparr>unwritten_commands := unwritten_commands ?s2 @
                    [new_unwritten_command col (get_current_position col (source_position ?s2)) ?m]\<rparr>"
    using w2 by (simp add: queue_command_def Let_def)
  have sp: "source_position ?s2 = source_position ?s0"
    by (simp add: update_dynamic_precision_frame update_source_statistics_frame)
  show ?thesis
    unfolding r q
    using w2 arc arc' m
    by (simp add: sp update_dynamic_precision_frame update_source_statistics_frame)
qed

theorem blank_line_keeps_arc_witness:
  "cmd_is_empty demo_blank \<and> comment demo_blank = [] \<and>
   waiting_for_arc (fst (demo_after [''G1 X4 Y3 E1'', ''G1 X3 Y4 E1''])) \<and>
   (\<exists>s'. process_gcode demo (fst (demo_after [''G1 X4 Y3 E1'', ''G1 X3 Y4 E1''])) demo_blank False False = Inr s' \<and>
         waiting_for_arc s' \<and>
         current_arc s' = current_arc (fst (demo_after [''G1 X4 Y3 E1'', ''G1 X3 Y4 E1''])) \<and>
         length (unwritten_commands s') = 3 \<and>
         arcs_created s' = 0)"
proof -
  let ?s = "fst (demo_after [''G1 X4 Y3 E1'', ''G1 X3 Y4 E1''])"
  have e: "cmd_is_empty demo_blank" and c: "comment demo_blank = []" and t: "command demo_blank = []"
    by (simp_all add: demo_blank_def)
  have ev: "waiting_for_arc ?s \<and> length (unwritten_commands ?s) = 2 \<and> arcs_created ?s = 0"
    using demo_building_eval by (simp add: case_prod_unfold)
  from blank_line_keeps_arc [OF e c, of ?s demo False False] ev t
  show ?thesis
    using e c by auto
qed




section \<open>The counters along a run\<close>



section \<open>The end of the stream\<close>

text \<open>
  For every tracker and engine: an empty command without a comment passes through
  process\_gcode without commit-or-abort, also when is\_end is true; so when the last
  parsed command is such a command, the end of the stream writes no arc although the
  arc is a shape and waiting\_for\_arc is true.  The pending commands and one more entry
  for the command are written as they are.
\<close>

lemma process_gcode_blank:
  assumes e: "cmd_is_empty cmd" and c: "comment cmd = []"
  shows "\<exists>m s2. process_gcode col s cmd is_end is_reprocess = Inr (queue_command col s2 False m) \<and>
           waiting_for_arc s2 = waiting_for_arc s \<and> arcs_created s2 = arcs_created s \<and>
           points_compressed s2 = points_compressed s \<and> emitted_arcs s2 = emitted_arcs s \<and>
           unwritten_commands s2 = unwritten_commands s \<and> output_file s2 = output_file s"
proof -
  obtain m pre s2 where t: "track_and_try_add col s cmd is_end is_reprocess = (False, m, pre, s2)"
    and s2: "s2 = update_dynamic_precision col
                    (update_source_statistics
                       (s\<lparr>source_position := position_update col (source_position s) cmd
                            (lines_processed s) (gcodes_processed s) (- 1)\<rparr>) m is_reprocess) cmd"
    using e by (simp add: track_and_try_add_def arc_eligible_def Let_def)
  have r: "process_gcode col s cmd is_end is_reprocess = Inr (queue_command col s2 False m)"
    using e c by (simp add: process_gcode.simps [of col s cmd is_end is_reprocess] t)
  have "waiting_for_arc s2 = waiting_for_arc s \<and> arcs_created s2 = arcs_created s \<and>
        points_compressed s2 = points_compressed s \<and> emitted_arcs s2 = emitted_arcs s \<and>
        unwritten_commands s2 = unwritten_commands s \<and> output_file s2 = output_file s"
    unfolding s2 by (simp add: update_dynamic_precision_frame update_source_statistics_frame)
  then show ?thesis using r by blast
qed

lemma end_of_stream_blank_command:
  assumes sh: "is_shape col (current_arc (fst st))" and w: "waiting_for_arc (fst st)"
    and e: "cmd_is_empty (loop_cmd (snd st))" and c: "comment (loop_cmd (snd st)) = []"
  shows "\<exists>out u. process_end col w start_clock st = Inr out \<and>
           arcs_created (welder out) = arcs_created (fst st) \<and>
           emitted_arcs (welder out) = emitted_arcs (fst st) \<and>
           output_file (welder out)
             = output_file (fst st) @ lines_to_write col (unwritten_commands (fst st) @ [u])"
proof -
  obtain m s2 where r: "process_gcode col (fst st) (loop_cmd (snd st)) True False
                          = Inr (queue_command col s2 False m)"
    and f: "waiting_for_arc s2 = waiting_for_arc (fst st)" "arcs_created s2 = arcs_created (fst st)"
      "points_compressed s2 = points_compressed (fst st)" "emitted_arcs s2 = emitted_arcs (fst st)"
      "unwritten_commands s2 = unwritten_commands (fst st)" "output_file s2 = output_file (fst st)"
    using process_gcode_blank [OF e c, of col "fst st" True False] by blast
  let ?u = "new_unwritten_command col (get_current_position col (source_position s2)) m"
  let ?q = "s2\<lparr>unwritten_commands := unwritten_commands s2 @ [?u]\<rparr>"
  have q: "queue_command col s2 False m = ?q"
    using f(1) w by (simp add: queue_command_def Let_def)
  have pe: "process_end col w start_clock st = finish_process col w start_clock (snd st) ?q"
    using sh w r q by (simp add: process_end_def)
  then obtain out where out: "process_end col w start_clock st = Inr out"
    by (simp add: finish_process_def Let_def)
  then have fp: "finish_process col w start_clock (snd st) ?q = Inr out" using pe by simp
  have "welder out = snd (clock w ((snd (on_progress w
            (snd (get_progress col w (write_unwritten_gcodes_to_file col ?q)
                    (file_size (write_unwritten_gcodes_to_file col ?q)) start_clock))
            (fst (get_progress col w (write_unwritten_gcodes_to_file col ?q)
                    (file_size (write_unwritten_gcodes_to_file col ?q)) start_clock))))
          \<lparr>output_file_is_open := False\<rparr>))"
    using fp by (auto simp: finish_process_def Let_def)
  then have "arcs_created (welder out) = arcs_created ?q \<and>
             emitted_arcs (welder out) = emitted_arcs ?q \<and>
             output_file (welder out) = output_file ?q @ lines_to_write col (unwritten_commands ?q)"
    by (simp add: clock_def on_progress_def get_progress_def Let_def write_unwritten_frame
        split: option.splits)
  then show ?thesis
    using out f by auto
qed

text \<open>
  Claim C5, run on the instance.  The source is two moves on the circle and a blank
  last line.  At the end of the stream the arc is a shape and waiting\_for\_arc is true,
  but process() hands the last parsed command, the blank line, to process\_gcode, and
  the test of line 584 skips commit-or-abort for an empty command without a comment: no
  arc is written, the two moves go out as they came, followed by the blank line and one
  more copy of it.  Without the blank last line the same moves are written as one arc.
\<close>

theorem end_of_stream_after_blank_line:
  "is_shape demo (current_arc (fst (demo_after [''G1 X4 Y3 E1'', ''G1 X3 Y4 E1'', '''']))) \<and>
   waiting_for_arc (fst (demo_after [''G1 X4 Y3 E1'', ''G1 X3 Y4 E1'', ''''])) \<and>
   \<not> isl (process demo (demo_world (Some [''G1 X4 Y3 E1'', ''G1 X3 Y4 E1'', '''']) True) demo_welder) \<and>
   arcs_created (welder (projr
     (process demo (demo_world (Some [''G1 X4 Y3 E1'', ''G1 X3 Y4 E1'', '''']) True) demo_welder))) = 0 \<and>
   output_file (welder (projr
     (process demo (demo_world (Some [''G1 X4 Y3 E1'', ''G1 X3 Y4 E1'', '''']) True) demo_welder)))
     = ''; header'' @ newline @ ''G1 X4 Y3 E1'' @ newline @ ''G1 X3 Y4 E1'' @ newline @ newline @ newline \<and>
   \<not> isl (process demo (demo_world (Some [''G1 X4 Y3 E1'', ''G1 X3 Y4 E1'']) True) demo_welder) \<and>
   arcs_created (welder (projr
     (process demo (demo_world (Some [''G1 X4 Y3 E1'', ''G1 X3 Y4 E1'']) True) demo_welder))) = 1 \<and>
   output_file (welder (projr
     (process demo (demo_world (Some [''G1 X4 Y3 E1'', ''G1 X3 Y4 E1'']) True) demo_welder)))
     = ''; header'' @ newline @ ''G3 <arc>'' @ newline"
  by code_simp

section \<open>Cancellation\<close>




section \<open>Files that cannot be opened\<close>



section \<open>The progress snapshot\<close>

text \<open>
  Claim C10.  A call of get\_progress\_ whose source\_file\_position is 0 (or negative, as
  \<^verbatim>\<open>tellg()\<close> answers on a failed stream) leaves compression\_ratio and compression\_percent
  as the default constructor of the progress set them: the two divisions of lines 368
  and 369 are behind the test \<^verbatim>\<open>source_file_position > 0\<close>.
\<close>

theorem get_progress_compression_defaults:
  "source_file_position \<le> 0 \<Longrightarrow>
     pg_compression_ratio (fst (get_progress col w s source_file_position start_clock))
       = pg_compression_ratio (new_progress col) \<and>
     pg_compression_percent (fst (get_progress col w s source_file_position start_clock))
       = pg_compression_percent (new_progress col)"
  by (simp add: get_progress_def Let_def)

theorem get_progress_compression_defaults_witness:
  "(0::int) \<le> 0 \<and>
   pg_compression_ratio (fst (get_progress demo (demo_world None False) demo_welder 0 0)) = 0 \<and>
   pg_compression_percent (fst (get_progress demo (demo_world None False) demo_welder 0 0)) = 0"
  using get_progress_compression_defaults [of 0 demo "demo_world None False" demo_welder 0]
  by (simp add: demo_def)


end
